theory Spec2Isabelle
  imports Main "HOL-Library.Sublist"
begin

section \<open>Strings and paths\<close>

text \<open>
  Go strings are byte sequences; they are modelled as \<^typ>\<open>string\<close>, a list of 8-bit
  characters, and a character outside ASCII is the bytes of its UTF-8 encoding.

  \<open>strings.ToLower\<close> maps the ASCII letters \<open>A\<close>..\<open>Z\<close> byte by byte
  (\<open>c += 'a' - 'A'\<close>). Of the letters outside ASCII, the library lowers two to an ASCII
  letter: the Kelvin sign U+212A (bytes 226 132 170) to \<open>k\<close> and the dotted capital I U+0130
  (bytes 196 176) to \<open>i\<close>; the model does the same. Every other byte is left as it is: the
  library lowers the remaining letters outside ASCII to letters outside ASCII (and replaces a
  byte that is no UTF-8 by U+FFFD), so where the model and the library spell a result
  differently, both results contain a byte outside ASCII, and none of them equals one of the
  ASCII tokens and extensions that the program compares with.
\<close>

definition byte :: "char \<Rightarrow> nat" where
  "byte c = of_char c"

definition lowerByte :: "char \<Rightarrow> char" where
  "lowerByte c = (if 65 \<le> byte c \<and> byte c \<le> 90 then char_of (byte c + 32) else c)"

function ToLower :: "string \<Rightarrow> string" where
  "ToLower [] = []"
| "ToLower (c # cs) =
     (if byte c = 226 \<and> map byte (take 2 cs) = [132, 170] then CHR ''k'' # ToLower (drop 2 cs)
      else if byte c = 196 \<and> map byte (take 1 cs) = [176] then CHR ''i'' # ToLower (drop 1 cs)
      else lowerByte c # ToLower cs)"
  by pat_completeness auto
termination
  by (relation "measure length") auto

declare ToLower.simps(2) [simp del]

text \<open>
  A lowered string: it has no capital ASCII letter and no encoding of one of the two letters
  that are lowered into ASCII.
\<close>

fun lowered :: "string \<Rightarrow> bool" where
  "lowered [] = True"
| "lowered (c # cs) =
     (\<not> (65 \<le> byte c \<and> byte c \<le> 90)
      \<and> \<not> (byte c = 226 \<and> map byte (take 2 cs) = [132, 170])
      \<and> \<not> (byte c = 196 \<and> map byte (take 1 cs) = [176])
      \<and> lowered cs)"

section \<open>The engine registry and the router (handlers.go, selectPool)\<close>

text \<open>
  \<open>EngineManager\<close> owns five pools; a \<open>*WorkerPool\<close> that is one of its fields is
  identified by the field's name, and the nil pointer by \<^const>\<open>None\<close>.
\<close>

datatype Pool = LibreOfficePool | PopplerPool | ImageMagickPool | PandocPool | GhostscriptPool

definition selectPool :: "string \<Rightarrow> string \<Rightarrow> Pool option" where
  "selectPool from0 to0 =
     (let from = ToLower from0; to = ToLower to0 in
      if (from = ''jpg'' \<or> from = ''png'' \<or> from = ''jpeg'') \<and> to = ''pdf''
        then Some ImageMagickPool
      else if from = ''pdf'' \<and> (to = ''jpg'' \<or> to = ''png'' \<or> to = ''jpeg'')
        then Some PopplerPool
      else if (from = ''docx'' \<or> from = ''ppt'' \<or> from = ''xlsx'' \<or> from = ''csv''
               \<or> from = ''html'') \<and> to = ''pdf''
        then Some LibreOfficePool
      else if from = ''pdf'' \<and> (to = ''docx'' \<or> to = ''xlsx'' \<or> to = ''ppt'')
        then Some LibreOfficePool
      else if (from = ''md'' \<or> from = ''markdown'' \<or> from = ''epub'') \<and> to = ''pdf''
        then Some PandocPool
      else if (from = ''txt'' \<or> from = ''html'' \<or> from = ''docx'' \<or> from = ''ppt''
               \<or> from = ''xlsx'' \<or> from = ''csv'') \<and> to = ''pdf''
        then Some LibreOfficePool
      else if from = ''pdf'' \<and> to = ''txt''
        then Some PopplerPool
      else None)"

subsection \<open>The routing table of the specification\<close>

text \<open>
  The v1 routing table as the specification prints it, one row per line of the table: the
  source tokens, the target tokens and the engine. The image engine is the ImageMagick pool,
  the raster engine the Poppler pool, the office-suite engine the LibreOffice pool and the
  markup engine the Pandoc pool.
\<close>

type_synonym table_row = "string list \<times> string list \<times> Pool"

definition v1_routing_table :: "table_row list" where
  "v1_routing_table =
     [([''jpg'', ''jpeg'', ''png''], [''pdf''], ImageMagickPool),
      ([''pdf''], [''jpg'', ''jpeg'', ''png''], PopplerPool),
      ([''docx'', ''ppt'', ''xlsx'', ''csv'', ''html'', ''txt''], [''pdf''], LibreOfficePool),
      ([''pdf''], [''docx'', ''xlsx'', ''ppt''], LibreOfficePool),
      ([''md'', ''markdown'', ''epub''], [''pdf''], PandocPool),
      ([''pdf''], [''txt''], PopplerPool)]"

fun table_lookup :: "table_row list \<Rightarrow> string \<Rightarrow> string \<Rightarrow> Pool option" where
  "table_lookup [] f t = None"
| "table_lookup ((ss, ts, e) # rows) f t =
     (if f \<in> set ss \<and> t \<in> set ts then Some e else table_lookup rows f t)"

text \<open>A pair is listed in the table when a row has its source and its target.\<close>

definition listed :: "table_row list \<Rightarrow> string \<Rightarrow> string \<Rightarrow> bool" where
  "listed rows f t = list_ex (\<lambda>(ss, ts, e). f \<in> set ss \<and> t \<in> set ts) rows"

section \<open>The job model (models.go)\<close>

text \<open>
  \<open>Job\<close> and \<open>JobResult\<close> with the fields of the Go structs. The result channel of a
  Job is not a field of the record: a pool handler is modelled as the list of the results it
  sends on its Job's channel, in the order of the sends. The \<open>Options\<close> map is read by no
  function of the repository and is left out. A Go \<open>error\<close> is \<^const>\<open>None\<close> for nil and
  otherwise carries its text.
\<close>

record Job =
  ID :: string
  InputPath :: string
  OutputPath :: string
  FromFormat :: string
  ToFormat :: string
  TempDir :: string

record JobResult =
  Success :: bool
  Error :: "string option"
  Path :: string

section \<open>The external tools and the file system (converters.go)\<close>

text \<open>
  What the operating system answers is the environment of a handler run:
  \<^item> \<open>exists p\<close>: \<open>os.Stat\<close> finds \<open>p\<close>;
  \<^item> \<open>getwd\<close>: the current directory, which \<open>filepath.Abs\<close> needs for a relative path
    (\<^const>\<open>None\<close> when it cannot be read);
  \<^item> \<open>mkdirAll d\<close>: \<open>os.MkdirAll\<close> of \<open>d\<close> succeeds;
  \<^item> \<open>run cmd args\<close>: \<open>exec.Command(cmd, args...).CombinedOutput()\<close>, \<^const>\<open>None\<close> when
    the tool exits with status 0 and otherwise the text of the error and of the tool's output;
  \<^item> \<open>entries d\<close>: the names of the entries of directory \<open>d\<close> when the handler looks for
    the output, in the sorted order in which \<open>filepath.Glob\<close> visits them;
  \<^item> \<open>uuid\<close>: the identifier that \<open>uuid.New().String()\<close> returns for the request;
  \<^item> \<open>create p\<close>, \<open>copy\<close>, \<open>openFile p\<close>: \<open>os.Create\<close> of \<open>p\<close>, the \<open>io.Copy\<close> of the
    upload into the created file, and \<open>os.Open\<close> of \<open>p\<close> succeed.
\<close>

record Env =
  exists :: "string \<Rightarrow> bool"
  getwd :: "string option"
  mkdirAll :: "string \<Rightarrow> bool"
  run :: "string \<Rightarrow> string list \<Rightarrow> string option"
  entries :: "string \<Rightarrow> string list"
  uuid :: string
  create :: "string \<Rightarrow> bool"
  copy :: bool
  openFile :: "string \<Rightarrow> bool"

text \<open>
  \<open>filepath.Join\<close> of a directory and one name: empty elements are ignored, the others are
  joined by a separator. The cleaning that the Go function applies to the result changes
  nothing when the directory is clean and the name is a single component, which is how the
  program calls it.
\<close>

definition Join :: "string \<Rightarrow> string \<Rightarrow> string" where
  "Join dir name = (if dir = [] then name else if name = [] then dir else dir @ ''/'' @ name)"

definition Abs :: "Env \<Rightarrow> string \<Rightarrow> string option" where
  "Abs env p = (if p \<noteq> [] \<and> hd p = CHR ''/'' then Some p
                else map_option (\<lambda>wd. Join wd p) (getwd env))"

text \<open>
  \<open>filepath.Glob\<close> of the pattern \<open>dir/pre*suf\<close>: the entries of \<open>dir\<close> whose name starts
  with \<open>pre\<close> and ends, after it, with \<open>suf\<close>, each joined to \<open>dir\<close>. (The pattern is given
  by its three parts; \<open>pre\<close> and \<open>suf\<close> are taken literally.)
\<close>

definition Glob :: "Env \<Rightarrow> string \<Rightarrow> string \<Rightarrow> string \<Rightarrow> string list" where
  "Glob env dir pre suf =
     map (Join dir)
       (filter (\<lambda>n. prefix pre n \<and> suffix suf (drop (length pre) n)) (entries env dir))"

definition command_error :: "string \<Rightarrow> string option \<Rightarrow> string option" where
  "command_error tool r = (case r of None \<Rightarrow> None | Some d \<Rightarrow> Some (tool @ '' failed: '' @ d))"

definition sofficePath :: "Env \<Rightarrow> string" where
  "sofficePath env =
     (let p = ''/opt/homebrew/bin/soffice'';
          p = (if \<not> exists env p then ''/Applications/LibreOffice.app/Contents/MacOS/soffice'' else p);
          p = (if \<not> exists env p then ''/usr/bin/libreoffice'' else p);
          p = (if \<not> exists env p then ''/usr/bin/soffice'' else p);
          p = (if \<not> exists env p then ''soffice'' else p)
      in p)"

definition LibreOfficeConvert :: "Env \<Rightarrow> string \<Rightarrow> string \<Rightarrow> string \<Rightarrow> string option" where
  "LibreOfficeConvert env inputPath outputDir toFormat =
     (case Abs env outputDir of
        None \<Rightarrow> Some ''failed to get absolute path for output''
      | Some absOutputDir \<Rightarrow>
     (case Abs env inputPath of
        None \<Rightarrow> Some ''failed to get absolute path for input''
      | Some absInputPath \<Rightarrow>
     (let userInstallDir = Join absOutputDir ''soffice_user'' in
      if \<not> mkdirAll env userInstallDir
        then Some ''failed to create user installation directory''
      else command_error ''LibreOffice''
             (run env (sofficePath env)
                [''-env:UserInstallation=file://'' @ userInstallDir, ''--headless'',
                 ''--convert-to'', toFormat, ''--outdir'', absOutputDir, absInputPath]))))"

definition PandocConvert :: "Env \<Rightarrow> string \<Rightarrow> string \<Rightarrow> string option" where
  "PandocConvert env inputPath outputPath =
     command_error ''Pandoc'' (run env ''pandoc'' [inputPath, ''-o'', outputPath])"

definition PDFToImage :: "Env \<Rightarrow> string \<Rightarrow> string \<Rightarrow> string \<Rightarrow> string option" where
  "PDFToImage env inputPath outputPrefix format =
     (if format = ''jpg'' \<or> format = ''jpeg''
        then command_error ''pdftoppm'' (run env ''pdftoppm'' [''-jpeg'', inputPath, outputPrefix])
      else if format = ''png''
        then command_error ''pdftoppm'' (run env ''pdftoppm'' [''-png'', inputPath, outputPrefix])
      else Some (''unsupported image format: '' @ format))"

definition ImageToPDF :: "Env \<Rightarrow> string list \<Rightarrow> string \<Rightarrow> string option" where
  "ImageToPDF env inputPaths outputPath =
     command_error ''ImageMagick'' (run env ''convert'' (inputPaths @ [outputPath]))"

definition MergePDFs :: "Env \<Rightarrow> string list \<Rightarrow> string \<Rightarrow> string option" where
  "MergePDFs env inputPaths outputPath =
     command_error ''pdfunite'' (run env ''pdfunite'' (inputPaths @ [outputPath]))"

definition CompressPDF :: "Env \<Rightarrow> string \<Rightarrow> string \<Rightarrow> string option" where
  "CompressPDF env inputPath outputPath =
     command_error ''Ghostscript''
       (run env ''gs''
          [''-sDEVICE=pdfwrite'', ''-dCompatibilityLevel=1.4'', ''-dPDFSETTINGS=/screen'',
           ''-dNOPAUSE'', ''-dQUIET'', ''-dBATCH'', ''-sOutputFile='' @ outputPath, inputPath])"

definition ExtractText :: "Env \<Rightarrow> string \<Rightarrow> string \<Rightarrow> string option" where
  "ExtractText env inputPath outputPath =
     command_error ''pdftotext'' (run env ''pdftotext'' [inputPath, outputPath])"

section \<open>The pool handlers (NewEngineManager)\<close>

text \<open>
  Each handler is the closure that \<open>NewEngineManager\<close> gives to \<open>NewWorkerPool\<close>; its value
  is the list of the results it sends on \<open>job.ResultChan\<close>. The channel is made with
  capacity 1 for each Job, so the send does not block. The LibreOffice handler looks for its
  output with the pattern \<open>TempDir/*.ToFormat\<close>, the Poppler handler with the pattern
  \<open>TempDir/output*.ToFormat\<close>.
\<close>

definition LibreOfficeHandler :: "Env \<Rightarrow> Job \<Rightarrow> JobResult list" where
  "LibreOfficeHandler env job =
     (let outputPath = Join (TempDir job) (''output.'' @ ToFormat job);
          err = LibreOfficeConvert env (InputPath job) (TempDir job) (ToFormat job);
          (err, outputPath) =
            (if err = None then
               (let matches = Glob env (TempDir job) [] (''.'' @ ToFormat job) in
                if length matches > 0 then (err, matches ! 0)
                else (Some (''conversion succeeded but no output file found in '' @ TempDir job
                            @ '' for format '' @ ToFormat job), outputPath))
             else (err, outputPath))
      in [\<lparr>Success = (err = None), Error = err, Path = outputPath\<rparr>])"

definition PopplerHandler :: "Env \<Rightarrow> Job \<Rightarrow> JobResult list" where
  "PopplerHandler env job =
     (let outputPath = Join (TempDir job) ''output'';
          (err, outputPath) =
            (if ToFormat job = ''txt'' then
               (let outputPath = outputPath @ ''.txt'' in
                (ExtractText env (InputPath job) outputPath, outputPath))
             else
               (let err = PDFToImage env (InputPath job) outputPath (ToFormat job);
                    matches = Glob env (TempDir job) ''output'' (''.'' @ ToFormat job)
                in if length matches > 0 then (err, matches ! 0) else (err, outputPath)))
      in [\<lparr>Success = (err = None), Error = err, Path = outputPath\<rparr>])"

definition ImageMagickHandler :: "Env \<Rightarrow> Job \<Rightarrow> JobResult list" where
  "ImageMagickHandler env job =
     (let outputPath = Join (TempDir job) ''output.pdf'';
          err = ImageToPDF env [InputPath job] outputPath
      in [\<lparr>Success = (err = None), Error = err, Path = outputPath\<rparr>])"

definition PandocHandler :: "Env \<Rightarrow> Job \<Rightarrow> JobResult list" where
  "PandocHandler env job =
     (let outputPath = Join (TempDir job) ''output.pdf'';
          err = PandocConvert env (InputPath job) outputPath
      in [\<lparr>Success = (err = None), Error = err, Path = outputPath\<rparr>])"

definition GhostscriptHandler :: "Env \<Rightarrow> Job \<Rightarrow> JobResult list" where
  "GhostscriptHandler env job =
     (let outputPath = Join (TempDir job) ''output.pdf'';
          err = CompressPDF env (InputPath job) outputPath
      in [\<lparr>Success = (err = None), Error = err, Path = outputPath\<rparr>])"

fun handler :: "Pool \<Rightarrow> Env \<Rightarrow> Job \<Rightarrow> JobResult list" where
  "handler LibreOfficePool = LibreOfficeHandler"
| "handler PopplerPool = PopplerHandler"
| "handler ImageMagickPool = ImageMagickHandler"
| "handler PandocPool = PandocHandler"
| "handler GhostscriptPool = GhostscriptHandler"

subsection \<open>Paths inside a working directory\<close>

text \<open>
  A name of a directory entry: not empty, without a separator, and neither of the two
  special names. A path is inside a directory when it is the directory, a separator and such
  a name.
\<close>

definition valid_name :: "string \<Rightarrow> bool" where
  "valid_name n = (n \<noteq> [] \<and> CHR ''/'' \<notin> set n \<and> n \<noteq> ''.'' \<and> n \<noteq> ''..'')"

definition inside :: "string \<Rightarrow> string \<Rightarrow> bool" where
  "inside dir p =
     (take (length dir + 1) p = dir @ ''/'' \<and> valid_name (drop (length dir + 1) p))"

subsection \<open>Sample runs\<close>

text \<open>
  A Job as \<open>HandleConvert\<close> builds it for a request \<open>from=pdf\<close>, \<open>to=jpeg\<close>, and an
  environment in which every tool exits with status 0 and \<open>pdftoppm -jpeg\<close> has written
  its page image under the name it chooses, \<open>output-1.jpg\<close>.
\<close>

definition job_pdf_jpeg :: Job where
  "job_pdf_jpeg = \<lparr>ID = ''j1'', InputPath = ''tmp/j1/in.pdf'', OutputPath = [],
                    FromFormat = ''pdf'', ToFormat = ''jpeg'', TempDir = ''tmp/j1''\<rparr>"

definition env_tools_ok :: Env where
  "env_tools_ok = \<lparr>exists = (\<lambda>p. p = ''/usr/bin/soffice''), getwd = Some ''/app'',
                    mkdirAll = (\<lambda>d. True), run = (\<lambda>c a. None),
                    entries = (\<lambda>d. if d = ''tmp/j1'' then [''in.pdf'', ''output-1.jpg''] else []),
                    uuid = ''j1'', create = (\<lambda>p. True), copy = True,
                    openFile = (\<lambda>p. p = ''tmp/j1/output-1.jpg'')\<rparr>"

text \<open>
  A Job for \<open>from=docx\<close>, \<open>to=pdf\<close>, and an environment in which every tool exits with
  an error and leaves the directory as it was.
\<close>

definition job_docx_pdf :: Job where
  "job_docx_pdf = \<lparr>ID = ''j2'', InputPath = ''tmp/j2/in.docx'', OutputPath = [],
                    FromFormat = ''docx'', ToFormat = ''pdf'', TempDir = ''tmp/j2''\<rparr>"

definition env_tools_fail :: Env where
  "env_tools_fail = \<lparr>exists = (\<lambda>p. p = ''/usr/bin/soffice''), getwd = Some ''/app'',
                      mkdirAll = (\<lambda>d. True), run = (\<lambda>c a. Some ''exit status 1''),
                      entries = (\<lambda>d. if d = ''tmp/j2'' then [''in.docx''] else []),
                      uuid = ''j2'', create = (\<lambda>p. True), copy = True,
                      openFile = (\<lambda>p. False)\<rparr>"

section \<open>The request handler of /convert (handlers.go, HandleConvert)\<close>

text \<open>
  A request as a handler reads it: the method, whether \<open>ParseMultipartForm\<close> accepts the
  body (within the size limit), the name of the uploaded part \<open>file\<close> if there is one, the
  names of the uploaded parts \<open>files\<close> in their order, and the form values.
\<close>

record Request =
  Method :: string
  form_ok :: bool
  upload :: "string option"
  files :: "string list"
  form :: "string \<rightharpoonup> string"

definition FormValue :: "Request \<Rightarrow> string \<Rightarrow> string" where
  "FormValue r key = (case form r key of None \<Rightarrow> [] | Some v \<Rightarrow> v)"

text \<open>
  What a handler leaves behind: the directories that exist, the calls of \<open>os.RemoveAll\<close>
  in their order, the Jobs sent to the queue of a pool, and the conversions that the handler
  calls itself, without a pool. \<open>os.RemoveAll\<close> removes the
  directory and everything below it; the handler discards its error, and the removal of a
  directory that the process has created itself is taken to succeed.
\<close>

datatype Call =
    CallRotatePDF string string int
  | CallImageToPDFSync "string list" string
  | CallMergePDFsSync "string list" string

record World =
  dirs :: "string list"
  removed :: "string list"
  queued :: "(Pool \<times> Job) list"
  calls :: "Call list"

datatype Response = HttpError nat string | Stream string

definition MkdirAll :: "string \<Rightarrow> World \<Rightarrow> World" where
  "MkdirAll p w = w\<lparr>dirs := List.insert p (dirs w)\<rparr>"

definition RemoveAll :: "string \<Rightarrow> World \<Rightarrow> World" where
  "RemoveAll p w =
     w\<lparr>dirs := filter (\<lambda>d. d \<noteq> p \<and> \<not> prefix (p @ ''/'') d) (dirs w),
       removed := removed w @ [p]\<rparr>"

definition Cleanup :: "Job \<Rightarrow> World \<Rightarrow> World" where
  "Cleanup j w = (if TempDir j \<noteq> [] then RemoveAll (TempDir j) w else w)"

definition enqueue :: "Pool \<Rightarrow> Job \<Rightarrow> World \<Rightarrow> World" where
  "enqueue pool job w = w\<lparr>queued := queued w @ [(pool, job)]\<rparr>"

definition error_text :: "string option \<Rightarrow> string" where
  "error_text e = (case e of None \<Rightarrow> ''<nil>'' | Some t \<Rightarrow> t)"

text \<open>
  The handler, branch by branch. The pool is started and takes the Job from its queue; the
  result that the handler receives is the first one that the pool handler sends, and when
  none is sent the receive never returns: the value is \<^const>\<open>None\<close>.
\<close>

definition HandleConvert :: "Env \<Rightarrow> Request \<Rightarrow> World \<Rightarrow> (Response \<times> World) option" where
  "HandleConvert env r w =
     (if Method r \<noteq> ''POST'' then Some (HttpError 405 ''Method not allowed'', w)
      else if \<not> form_ok r then Some (HttpError 400 ''File too large or invalid form'', w)
      else case upload r of
        None \<Rightarrow> Some (HttpError 400 ''Missing file'', w)
      | Some filename \<Rightarrow>
     (let from = FormValue r ''from''; to = FormValue r ''to'' in
      if from = [] \<or> to = [] then Some (HttpError 400 ''Missing from/to parameters'', w)
      else
     (let reqID = uuid env; tempDir = Join ''tmp'' reqID in
      if \<not> mkdirAll env tempDir then Some (HttpError 500 ''Internal server error'', w)
      else
     (let w = MkdirAll tempDir w; inputPath = Join tempDir filename in
      if \<not> create env inputPath then Some (HttpError 500 ''Internal server error'', w)
      else if \<not> copy env then Some (HttpError 500 ''Internal server error'', w)
      else
     (let job = \<lparr>ID = reqID, InputPath = inputPath, OutputPath = [], FromFormat = from,
                  ToFormat = to, TempDir = tempDir\<rparr> in
      case selectPool from to of
        None \<Rightarrow> Some (HttpError 400 ''Unsupported conversion'', Cleanup job w)
      | Some pool \<Rightarrow>
     (let w = enqueue pool job w in
      case handler pool env job of
        [] \<Rightarrow> None
      | result # _ \<Rightarrow>
          if \<not> Success result
            then Some (HttpError 500 (''Conversion failed: '' @ error_text (Error result)),
                       Cleanup job w)
          else if \<not> openFile env (Path result)
            then Some (HttpError 500 ''Failed to open result'', Cleanup job w)
          else Some (Stream (Path result), Cleanup job w)))))))"

text \<open>
  The request passes every check before the Job is built: it reaches the routing step with
  its working directory created and its input staged.
\<close>

definition staged :: "Env \<Rightarrow> Request \<Rightarrow> bool" where
  "staged env r =
     (Method r = ''POST'' \<and> form_ok r
      \<and> (case upload r of None \<Rightarrow> False
          | Some filename \<Rightarrow> create env (Join (Join ''tmp'' (uuid env)) filename))
      \<and> FormValue r ''from'' \<noteq> [] \<and> FormValue r ''to'' \<noteq> []
      \<and> mkdirAll env (Join ''tmp'' (uuid env)) \<and> copy env)"

subsection \<open>Sample requests\<close>

definition world0 :: World where
  "world0 = \<lparr>dirs = [''tmp''], removed = [], queued = [], calls = []\<rparr>"

definition convert_request :: "string \<Rightarrow> string \<Rightarrow> string \<Rightarrow> Request" where
  "convert_request filename from to =
     \<lparr>Method = ''POST'', form_ok = True, upload = Some filename, files = [],
      form = [''from'' \<mapsto> from, ''to'' \<mapsto> to]\<rparr>"

text \<open>An environment in which the upload cannot be written to the working directory.\<close>

definition env_create_fails :: Env where
  "env_create_fails = env_tools_ok\<lparr>uuid := ''r1'', create := (\<lambda>p. False)\<rparr>"

section \<open>The request handlers of /rotate and /merge (handlers.go)\<close>

subsection \<open>Scanning and printing integers\<close>

text \<open>
  \<open>fmt.Sscanf(s, "%d", &angle)\<close> with one operand: white space before the number is
  skipped (a newline is an error), an optional sign is read, then decimal digits as far as
  they go; there must be one digit at least, and the number must fit the 64-bit \<open>int\<close>. The
  value is \<^const>\<open>None\<close> when the scan returns an error; the operand is then left as it
  was. What follows the digits is not looked at.

  White space is what \<open>isSpace\<close> of the library's scanner accepts: the ASCII characters 9
  to 13 and 32, and the characters U+0085, U+00A0, U+1680, U+2000 to U+200A, U+2028, U+2029,
  U+202F, U+205F and U+3000. \<open>space_width\<close> is the number of bytes of the white-space
  character at the start of a string in UTF-8, and 0 when the string starts with none.
\<close>

definition isDigit :: "char \<Rightarrow> bool" where
  "isDigit c = (48 \<le> byte c \<and> byte c \<le> 57)"

definition space_width :: "string \<Rightarrow> nat" where
  "space_width s =
     (case map byte (take 3 s) of
        [] \<Rightarrow> 0
      | b0 # bs \<Rightarrow>
          if 9 \<le> b0 \<and> b0 \<le> 13 \<or> b0 = 32 then 1
          else if b0 = 194 \<and> (take 1 bs = [133] \<or> take 1 bs = [160]) then 2
          else if b0 = 225 \<and> bs = [154, 128] then 3
          else if b0 = 226 \<and> take 1 bs = [128] \<and>
                  (case drop 1 bs of
                     [b2] \<Rightarrow> 128 \<le> b2 \<and> b2 \<le> 138 \<or> b2 = 168 \<or> b2 = 169 \<or> b2 = 175
                   | _ \<Rightarrow> False) then 3
          else if b0 = 226 \<and> bs = [129, 159] then 3
          else if b0 = 227 \<and> bs = [128, 128] then 3
          else 0)"

function SkipSpace :: "string \<Rightarrow> string option" where
  "SkipSpace s =
     (if s = [] then Some []
      else if byte (hd s) = 10 then None
      else if space_width s = 0 then Some s
      else SkipSpace (drop (space_width s) s))"
  by pat_completeness auto
termination
  by (relation "measure length") auto

declare SkipSpace.simps [simp del]

definition decimal :: "string \<Rightarrow> int" where
  "decimal ds = foldl (\<lambda>a c. 10 * a + (int (byte c) - 48)) 0 ds"

definition Sscanf_d :: "string \<Rightarrow> int option" where
  "Sscanf_d s =
     (case SkipSpace s of
        None \<Rightarrow> None
      | Some [] \<Rightarrow> None
      | Some (c # cs) \<Rightarrow>
          (let neg = (c = CHR ''-'');
               rest = (if c = CHR ''-'' \<or> c = CHR ''+'' then cs else c # cs);
               tok = takeWhile isDigit rest
           in if tok = [] then None
              else (let i = (if neg then - decimal tok else decimal tok)
                    in if - (2 ^ 63) \<le> i \<and> i < 2 ^ 63 then Some i else None)))"

text \<open>
  The words of the claim about /rotate: a value is an integer when it is, as a whole, decimal
  digits after an optional sign; \<open>integer_value\<close> is the number it denotes.
\<close>

definition is_integer :: "string \<Rightarrow> bool" where
  "is_integer s =
     (case s of
        [] \<Rightarrow> False
      | c # cs \<Rightarrow>
          (let ds = (if c = CHR ''-'' \<or> c = CHR ''+'' then cs else c # cs)
           in ds \<noteq> [] \<and> list_all isDigit ds))"

definition integer_value :: "string \<Rightarrow> int" where
  "integer_value s =
     (case s of
        [] \<Rightarrow> 0
      | c # cs \<Rightarrow>
          if c = CHR ''-'' then - decimal cs
          else if c = CHR ''+'' then decimal cs
          else decimal (c # cs))"

text \<open>\<open>fmt.Sprintf("%d", n)\<close>: the decimal digits, after a minus sign for a negative number.\<close>

fun utoa :: "nat \<Rightarrow> string" where
  "utoa n = (if n < 10 then [char_of (48 + n)] else utoa (n div 10) @ [char_of (48 + n mod 10)])"

declare utoa.simps [simp del]

definition itoa :: "int \<Rightarrow> string" where
  "itoa i = (if i < 0 then CHR ''-'' # utoa (nat (- i)) else utoa (nat i))"

subsection \<open>The converters called without a pool\<close>

definition RotatePDF :: "Env \<Rightarrow> string \<Rightarrow> string \<Rightarrow> int \<Rightarrow> string option" where
  "RotatePDF env inputPath outputPath angle =
     command_error ''qpdf rotate''
       (run env ''qpdf'' [inputPath, ''--rotate=+'' @ itoa angle, outputPath])"

definition MergePDFsSync :: "Env \<Rightarrow> string list \<Rightarrow> string \<Rightarrow> string option" where
  "MergePDFsSync env inputs output = MergePDFs env inputs output"

definition ImageToPDFSync :: "Env \<Rightarrow> string list \<Rightarrow> string \<Rightarrow> string option" where
  "ImageToPDFSync env inputs output = ImageToPDF env inputs output"

definition called :: "Call \<Rightarrow> World \<Rightarrow> World" where
  "called c w = w\<lparr>calls := calls w @ [c]\<rparr>"

definition serveAndCleanup :: "Env \<Rightarrow> string \<Rightarrow> string \<Rightarrow> World \<Rightarrow> Response \<times> World" where
  "serveAndCleanup env path tempDir w =
     (if \<not> openFile env path then (HttpError 500 ''Failed to open result'', RemoveAll tempDir w)
      else (Stream path, RemoveAll tempDir w))"

text \<open>
  These handlers discard the errors of \<open>os.MkdirAll\<close>, \<open>os.Create\<close> and \<open>io.Copy\<close>: a
  failure there changes no branch of the handler, the directory is just not there.
\<close>

definition mkdir_unchecked :: "Env \<Rightarrow> string \<Rightarrow> World \<Rightarrow> World" where
  "mkdir_unchecked env d w = (if mkdirAll env d then MkdirAll d w else w)"

subsection \<open>HandleRotate\<close>

definition HandleRotate :: "Env \<Rightarrow> Request \<Rightarrow> World \<Rightarrow> Response \<times> World" where
  "HandleRotate env r w =
     (if Method r \<noteq> ''POST'' then (HttpError 405 ''Method not allowed'', w)
      else if \<not> form_ok r then (HttpError 400 ''Invalid form'', w)
      else case upload r of
        None \<Rightarrow> (HttpError 400 ''Missing file'', w)
      | Some filename \<Rightarrow>
     (let angleStr = FormValue r ''angle'';
          angle = (case Sscanf_d angleStr of None \<Rightarrow> 0 | Some v \<Rightarrow> v);
          angle = (if angle = 0 then 90 else angle);
          reqID = uuid env;
          tempDir = Join ''tmp'' reqID;
          w = mkdir_unchecked env tempDir w;
          inputPath = Join tempDir filename;
          outputPath = Join tempDir ''rotated.pdf'';
          err = RotatePDF env inputPath outputPath angle;
          w = called (CallRotatePDF inputPath outputPath angle) w
      in if err \<noteq> None then (HttpError 500 ''Rotation failed'', RemoveAll tempDir w)
         else serveAndCleanup env outputPath tempDir w))"

subsection \<open>HandleMerge\<close>

text \<open>
  \<open>filepath.Ext\<close>: the loop runs from the end of the path to the last separator and returns
  the path from the first dot it meets; \<open>ext_loop\<close> gets the path reversed and collects
  what it has passed.
\<close>

fun ext_loop :: "string \<Rightarrow> string \<Rightarrow> string" where
  "ext_loop [] acc = []"
| "ext_loop (c # cs) acc =
     (if c = CHR ''/'' then []
      else if c = CHR ''.'' then c # acc
      else ext_loop cs (c # acc))"

definition Ext :: "string \<Rightarrow> string" where
  "Ext path = ext_loop (rev path) []"

definition image_ext :: "string \<Rightarrow> bool" where
  "image_ext ext = (ext = ''.jpg'' \<or> ext = ''.jpeg'' \<or> ext = ''.png'')"

text \<open>
  The loop over the uploaded files: \<open>i\<close> is the index of the next file, and the state of
  the loop is the list \<open>inputPaths\<close> and the flag \<open>isImageMerge\<close>.
\<close>

fun stage_files :: "string \<Rightarrow> nat \<Rightarrow> string list \<Rightarrow> string list \<times> bool \<Rightarrow> string list \<times> bool" where
  "stage_files tempDir i [] (inputPaths, isImageMerge) = (inputPaths, isImageMerge)"
| "stage_files tempDir i (filename # rest) (inputPaths, isImageMerge) =
     (let ext = ToLower (Ext filename);
          isImageMerge = (if image_ext ext then True else isImageMerge);
          path = Join tempDir (''input_'' @ itoa (int i) @ ext)
      in stage_files tempDir (i + 1) rest (inputPaths @ [path], isImageMerge))"

definition HandleMerge :: "Env \<Rightarrow> Request \<Rightarrow> World \<Rightarrow> Response \<times> World" where
  "HandleMerge env r w =
     (if Method r \<noteq> ''POST'' then (HttpError 405 ''Method not allowed'', w)
      else if \<not> form_ok r then (HttpError 400 ''Invalid form'', w)
      else if length (files r) < 2
        then (HttpError 400 ''At least 2 files required for merge'', w)
      else
     (let reqID = uuid env;
          tempDir = Join ''tmp'' reqID;
          w = mkdir_unchecked env tempDir w;
          (inputPaths, isImageMerge) = stage_files tempDir 0 (files r) ([], False);
          outputPath = Join tempDir ''merged.pdf'';
          (err, w) =
            (if isImageMerge
               then (ImageToPDFSync env inputPaths outputPath,
                     called (CallImageToPDFSync inputPaths outputPath) w)
             else (MergePDFsSync env inputPaths outputPath,
                   called (CallMergePDFsSync inputPaths outputPath) w))
      in case err of
           Some e \<Rightarrow> (HttpError 500 (''Merge failed: '' @ e), RemoveAll tempDir w)
         | None \<Rightarrow> serveAndCleanup env outputPath tempDir w))"

text \<open>
  What the claims about /merge speak of: the extension of a file name as it is written, and
  the paths under which the uploaded files are staged.
\<close>

definition staged_paths :: "string \<Rightarrow> string list \<Rightarrow> string list" where
  "staged_paths tempDir names =
     map (\<lambda>(i, name). Join tempDir (''input_'' @ itoa (int i) @ ToLower (Ext name)))
       (enumerate 0 names)"

definition client_error :: "Response \<Rightarrow> bool" where
  "client_error resp = (case resp of HttpError code msg \<Rightarrow> 400 \<le> code \<and> code < 500 | Stream p \<Rightarrow> False)"

subsection \<open>Sample requests\<close>

text \<open>An environment in which every tool succeeds and every file can be opened.\<close>

definition env_all_ok :: Env where
  "env_all_ok = env_tools_ok\<lparr>uuid := ''r2'', openFile := (\<lambda>p. True)\<rparr>"

definition rotate_request :: "(string \<rightharpoonup> string) \<Rightarrow> Request" where
  "rotate_request fm =
     \<lparr>Method = ''POST'', form_ok = True, upload = Some ''in.pdf'', files = [], form = fm\<rparr>"

definition merge_request :: "string list \<Rightarrow> Request" where
  "merge_request names =
     \<lparr>Method = ''POST'', form_ok = True, upload = None, files = names, form = Map.empty\<rparr>"

section \<open>The worker pool (WorkerPool, NewWorkerPool, Start, Wait)\<close>

text \<open>
  A pool with its goroutines, as a transition system. A goroutine launched by \<open>Start\<close> is
  waiting in its \<open>select\<close>, is inside the call \<open>p.handler(job)\<close>, or has returned. The
  state of the pool is the content of the buffered channel \<open>JobQueue\<close>, whether the channel
  is closed (by \<open>Wait\<close>), whether the context is cancelled, the number \<open>workers\<close> given to
  \<open>NewWorkerPool\<close>, the counter of the loop of \<open>Start\<close>, and the goroutines launched so
  far. \<open>Start\<close> is called once for each pool (\<open>EngineManager.Start\<close>, called by \<open>main\<close>).
\<close>

datatype goroutine = Waiting | Handling Job | Returned

record PoolState =
  JobQueue :: "Job list"
  closed :: bool
  cancelled :: bool
  workers :: int
  launched :: nat
  goroutines :: "goroutine list"

definition NewWorkerPool :: "int \<Rightarrow> PoolState" where
  "NewWorkerPool n =
     \<lparr>JobQueue = [], closed = False, cancelled = False, workers = n, launched = 0,
      goroutines = []\<rparr>"

text \<open>
  One step of the system:
  \<^item> \<open>launch\<close>: an iteration of the loop \<open>for i := 0; i < p.workers; i++\<close> of \<open>Start\<close>
    launches a goroutine;
  \<^item> \<open>send\<close>: a request handler puts a Job into the queue, which holds 100 Jobs at most;
  \<^item> \<open>receive\<close>: a waiting goroutine takes the first Job of the queue and calls the handler;
  \<^item> \<open>finish\<close>: the handler returns, and the goroutine waits again;
  \<^item> \<open>stop_cancelled\<close>, \<open>stop_closed\<close>: a waiting goroutine returns, because the context
    is done, or because the queue is closed and empty;
  \<^item> \<open>cancel\<close>, \<open>close\<close>: the context is cancelled; \<open>Wait\<close> closes the queue.
\<close>

inductive step :: "PoolState \<Rightarrow> PoolState \<Rightarrow> bool" where
  launch: "int (launched s) < workers s \<Longrightarrow>
     step s (s\<lparr>launched := launched s + 1, goroutines := goroutines s @ [Waiting]\<rparr>)"
| send: "\<not> closed s \<Longrightarrow> length (JobQueue s) < 100 \<Longrightarrow>
     step s (s\<lparr>JobQueue := JobQueue s @ [job]\<rparr>)"
| receive: "k < length (goroutines s) \<Longrightarrow> goroutines s ! k = Waiting \<Longrightarrow>
     JobQueue s = job # rest \<Longrightarrow>
     step s (s\<lparr>JobQueue := rest, goroutines := (goroutines s)[k := Handling job]\<rparr>)"
| finish: "k < length (goroutines s) \<Longrightarrow> goroutines s ! k = Handling job \<Longrightarrow>
     step s (s\<lparr>goroutines := (goroutines s)[k := Waiting]\<rparr>)"
| stop_cancelled: "k < length (goroutines s) \<Longrightarrow> goroutines s ! k = Waiting \<Longrightarrow>
     cancelled s \<Longrightarrow>
     step s (s\<lparr>goroutines := (goroutines s)[k := Returned]\<rparr>)"
| stop_closed: "k < length (goroutines s) \<Longrightarrow> goroutines s ! k = Waiting \<Longrightarrow>
     closed s \<Longrightarrow> JobQueue s = [] \<Longrightarrow>
     step s (s\<lparr>goroutines := (goroutines s)[k := Returned]\<rparr>)"
| cancel: "step s (s\<lparr>cancelled := True\<rparr>)"
| close: "\<not> closed s \<Longrightarrow> step s (s\<lparr>closed := True\<rparr>)"

inductive reachable :: "int \<Rightarrow> PoolState \<Rightarrow> bool" for n where
  init: "reachable n (NewWorkerPool n)"
| next_step: "reachable n s \<Longrightarrow> step s s' \<Longrightarrow> reachable n s'"

text \<open>The handler invocations that run at a state of the pool.\<close>

fun handling :: "goroutine \<Rightarrow> bool" where
  "handling (Handling job) = True"
| "handling g = False"

definition running :: "PoolState \<Rightarrow> nat" where
  "running s = length (filter handling (goroutines s))"

text \<open>
  A pool of two workers in which one goroutine handles a Job while another Job waits in the
  queue.
\<close>

definition pool_busy :: PoolState where
  "pool_busy =
     \<lparr>JobQueue = [job_docx_pdf], closed = False, cancelled = False, workers = 2, launched = 2,
      goroutines = [Handling job_pdf_jpeg, Waiting]\<rparr>"

section \<open>Properties of the router\<close>

lemma byte_lowerByte:
  "byte (lowerByte c) = (if 65 \<le> byte c \<and> byte c \<le> 90 then byte c + 32 else byte c)"
  by (simp add: lowerByte_def byte_def)

lemma lowerByte_fixed: "\<not> (65 \<le> byte c \<and> byte c \<le> 90) \<Longrightarrow> lowerByte c = c"
  unfolding lowerByte_def by auto

lemma ToLower_lowered: "lowered s \<Longrightarrow> ToLower s = s"
  by (induction s) (auto simp: ToLower.simps(2) lowerByte_fixed)

lemma ToLower_head_high:
  assumes "ToLower s = y # ys" and "128 \<le> byte y"
  shows "\<exists>cs. s = y # cs \<and> ys = ToLower cs"
proof (cases s)
  case Nil
  with assms show ?thesis by simp
next
  case (Cons c cs)
  with assms show ?thesis
    by (auto simp: ToLower.simps(2) byte_lowerByte byte_def lowerByte_def split: if_splits)
qed

lemma ToLower_take2:
  assumes "map byte (take 2 (ToLower s)) = [132, 170]"
  shows "map byte (take 2 s) = [132, 170]"
proof -
  from assms obtain y1 y2 ys
    where t: "ToLower s = y1 # y2 # ys" and b: "byte y1 = 132" "byte y2 = 170"
    by (cases "ToLower s"; cases "tl (ToLower s)") auto
  from ToLower_head_high [OF t] b obtain cs where s: "s = y1 # cs" and c: "y2 # ys = ToLower cs"
    by auto
  from ToLower_head_high [OF c [symmetric]] b obtain cs' where "cs = y2 # cs'" by auto
  with s b show ?thesis by simp
qed

lemma ToLower_take1:
  assumes "map byte (take 1 (ToLower s)) = [176]"
  shows "map byte (take 1 s) = [176]"
proof -
  from assms obtain y1 ys where t: "ToLower s = y1 # ys" and b: "byte y1 = 176"
    by (cases "ToLower s") auto
  from ToLower_head_high [OF t] b obtain cs where s: "s = y1 # cs" by auto
  with b show ?thesis by simp
qed

lemma lowered_ToLower: "lowered (ToLower s)"
proof (induction s rule: ToLower.induct)
  case 1
  show ?case by simp
next
  case (2 c cs)
  show ?case
  proof (cases "byte c = 226 \<and> map byte (take 2 cs) = [132, 170]")
    case True
    with 2 show ?thesis by (simp add: ToLower.simps(2) byte_def)
  next
    case nk: False
    show ?thesis
    proof (cases "byte c = 196 \<and> map byte (take 1 cs) = [176]")
      case True
      with nk 2 show ?thesis by (auto simp add: ToLower.simps(2) byte_def)
    next
      case False
      with nk 2 have ih: "lowered (ToLower cs)" by simp
      from nk False have eq: "ToLower (c # cs) = lowerByte c # ToLower cs"
        by (auto simp: ToLower.simps(2))
      have a: "\<not> (65 \<le> byte (lowerByte c) \<and> byte (lowerByte c) \<le> 90)"
        by (simp add: byte_lowerByte)
      have b: "\<not> (byte (lowerByte c) = 226 \<and> map byte (take 2 (ToLower cs)) = [132, 170])"
        using nk ToLower_take2 [of cs] by (auto simp: byte_lowerByte split: if_splits)
      have d: "\<not> (byte (lowerByte c) = 196 \<and> map byte (take 1 (ToLower cs)) = [176])"
        using False ToLower_take1 [of cs] by (auto simp: byte_lowerByte split: if_splits)
      show ?thesis using a b d ih by (simp add: eq)
    qed
  qed
qed

lemma ToLower_idem: "ToLower (ToLower s) = ToLower s"
  by (rule ToLower_lowered) (rule lowered_ToLower)

lemma table_row_engine:
  "(ss, ts, e) \<in> set v1_routing_table \<Longrightarrow> f \<in> set ss \<Longrightarrow> t \<in> set ts \<Longrightarrow>
     table_lookup v1_routing_table f t = Some e"
  unfolding v1_routing_table_def by (simp, elim disjE conjE; simp; elim disjE; simp)

lemma table_tokens_lowered:
  "(ss, ts, e) \<in> set v1_routing_table \<Longrightarrow> f \<in> set ss \<Longrightarrow> t \<in> set ts \<Longrightarrow>
     lowered f \<and> lowered t"
  unfolding v1_routing_table_def
  by (simp, elim disjE conjE; simp add: byte_def; elim disjE; simp add: byte_def)

lemma table_lookup_listed: "listed rows f t \<longleftrightarrow> table_lookup rows f t \<noteq> None"
  by (induction rows) (auto simp: listed_def)

lemma selectPool_table_lookup:
  "selectPool from to = table_lookup v1_routing_table (ToLower from) (ToLower to)"
proof -
  define f where "f = ToLower from"
  define t where "t = ToLower to"
  have "selectPool from to = table_lookup v1_routing_table f t"
  proof (cases "t = ''pdf''")
    case True
    then show ?thesis
      unfolding selectPool_def v1_routing_table_def Let_def f_def [symmetric] t_def [symmetric]
      by (cases "f = ''pdf''") auto
  next
    case False
    then show ?thesis
      unfolding selectPool_def v1_routing_table_def Let_def f_def [symmetric] t_def [symmetric]
      by (cases "f = ''pdf''") auto
  qed
  then show ?thesis by (simp add: f_def t_def)
qed

text \<open>
  C3: for every pair listed in the v1 routing table the router returns the pool of the
  engine that the table names for it, and for every pair of lowercase tokens (tokens that
  lowering leaves as they are) that is not in the table it returns no pool.
\<close>

theorem selectPool_routing_table:
  "(\<forall>(ss, ts, e) \<in> set v1_routing_table. \<forall>f \<in> set ss. \<forall>t \<in> set ts. selectPool f t = Some e)
   \<and> (ToLower from = from \<and> ToLower to = to \<and> \<not> listed v1_routing_table from to
        \<longrightarrow> selectPool from to = None)"
proof (intro conjI impI)
  show "\<forall>(ss, ts, e) \<in> set v1_routing_table. \<forall>f \<in> set ss. \<forall>t \<in> set ts. selectPool f t = Some e"
  proof (clarify)
    fix ss ts e f t
    assume r: "(ss, ts, e) \<in> set v1_routing_table" and f: "f \<in> set ss" and t: "t \<in> set ts"
    from table_tokens_lowered [OF r f t] have "ToLower f = f" "ToLower t = t"
      by (simp_all add: ToLower_lowered)
    then show "selectPool f t = Some e"
      using table_row_engine [OF r f t] by (simp add: selectPool_table_lookup)
  qed
next
  assume "ToLower from = from \<and> ToLower to = to \<and> \<not> listed v1_routing_table from to"
  then show "selectPool from to = None"
    by (simp add: selectPool_table_lookup table_lookup_listed)
qed

theorem selectPool_routing_table_witness:
  "selectPool ''jpg'' ''pdf'' = Some ImageMagickPool
   \<and> selectPool ''pdf'' ''docx'' = Some LibreOfficePool
   \<and> ToLower ''docx'' = ''docx'' \<and> ToLower ''png'' = ''png''
   \<and> \<not> listed v1_routing_table ''docx'' ''png''
   \<and> selectPool ''docx'' ''png'' = None"
proof -
  have rows: "([''jpg'', ''jpeg'', ''png''], [''pdf''], ImageMagickPool) \<in> set v1_routing_table"
    "([''pdf''], [''docx'', ''xlsx'', ''ppt''], LibreOfficePool) \<in> set v1_routing_table"
    by (simp_all add: v1_routing_table_def)
  have low: "ToLower ''docx'' = ''docx''" "ToLower ''png'' = ''png''" by code_simp+
  have nl: "\<not> listed v1_routing_table ''docx'' ''png''" by code_simp
  from selectPool_routing_table [of "''docx''" "''png''"] rows low nl
  show ?thesis by auto
qed

text \<open>
  C10: the router is invariant under the letter case of its inputs: a pair of tokens and
  its lowered form get the same pool.
\<close>

theorem selectPool_case_invariant:
  "selectPool from to = selectPool (ToLower from) (ToLower to)"
  by (simp add: selectPool_def ToLower_idem)

section \<open>Properties of the pool handlers\<close>

lemma Join_nonempty: "dir \<noteq> [] \<Longrightarrow> name \<noteq> [] \<Longrightarrow> Join dir name = dir @ ''/'' @ name"
  by (simp add: Join_def)

lemma inside_Join: "dir \<noteq> [] \<Longrightarrow> valid_name n \<Longrightarrow> inside dir (Join dir n)"
  by (simp add: inside_def Join_def valid_name_def)

lemma inside_nonempty: "inside dir p \<Longrightarrow> p \<noteq> []"
  by (auto simp: inside_def)

lemma valid_name_output: "CHR ''/'' \<notin> set fmt \<Longrightarrow> valid_name (''output.'' @ fmt)"
  by (simp add: valid_name_def)

lemma Glob_inside:
  assumes "dir \<noteq> []" and "\<forall>n \<in> set (entries env dir). valid_name n"
    and "p \<in> set (Glob env dir pre suf)"
  shows "inside dir p"
  using assms by (auto simp: Glob_def intro: inside_Join)

lemma Glob_first_inside:
  assumes "dir \<noteq> []" and "\<forall>n \<in> set (entries env dir). valid_name n"
    and "0 < length (Glob env dir pre suf)"
  shows "inside dir (Glob env dir pre suf ! 0)"
  using assms Glob_inside [OF assms(1,2), of "Glob env dir pre suf ! 0" pre suf]
  by (simp add: nth_mem)

lemma LibreOfficeHandler_found:
  assumes "LibreOfficeConvert env (InputPath job) (TempDir job) (ToFormat job) = None"
    and "Glob env (TempDir job) [] (''.'' @ ToFormat job) = m # ms"
  shows "LibreOfficeHandler env job = [\<lparr>Success = True, Error = None, Path = m\<rparr>]"
  using assms by (simp add: LibreOfficeHandler_def)

lemma LibreOfficeHandler_not_found:
  assumes "LibreOfficeConvert env (InputPath job) (TempDir job) (ToFormat job) = None"
    and "Glob env (TempDir job) [] (''.'' @ ToFormat job) = []"
  shows "\<exists>e p. LibreOfficeHandler env job = [\<lparr>Success = False, Error = Some e, Path = p\<rparr>]"
  using assms by (simp add: LibreOfficeHandler_def)

lemma PopplerHandler_found:
  assumes "ToFormat job \<noteq> ''txt''"
    and "Glob env (TempDir job) ''output'' (''.'' @ ToFormat job) = m # ms"
  shows "PopplerHandler env job =
           [\<lparr>Success = (PDFToImage env (InputPath job) (Join (TempDir job) ''output'')
                          (ToFormat job) = None),
             Error = PDFToImage env (InputPath job) (Join (TempDir job) ''output'') (ToFormat job),
             Path = m\<rparr>]"
  using assms by (simp add: PopplerHandler_def Let_def)

lemma valid_name_literals: "valid_name ''output''" "valid_name ''output.txt''" "valid_name ''output.pdf''"
  by (simp_all add: valid_name_def)

lemma LibreOfficeHandler_fields:
  assumes "TempDir job \<noteq> []" and "CHR ''/'' \<notin> set (ToFormat job)"
    and "\<forall>n \<in> set (entries env (TempDir job)). valid_name n"
    and "r \<in> set (LibreOfficeHandler env job)"
  shows "(Success r \<longleftrightarrow> Error r = None) \<and> inside (TempDir job) (Path r)"
proof -
  let ?out = "Join (TempDir job) (''output.'' @ ToFormat job)"
  let ?ms = "Glob env (TempDir job) [] (''.'' @ ToFormat job)"
  have out: "inside (TempDir job) ?out"
    using assms(1,2) by (intro inside_Join valid_name_output)
  have first: "0 < length ?ms \<Longrightarrow> inside (TempDir job) (?ms ! 0)"
    using Glob_first_inside [OF assms(1,3)] by simp
  show ?thesis
    using assms(4) out first
    by (auto simp: LibreOfficeHandler_def Let_def split: if_splits)
qed

lemma PopplerHandler_fields:
  assumes "TempDir job \<noteq> []"
    and "\<forall>n \<in> set (entries env (TempDir job)). valid_name n"
    and "r \<in> set (PopplerHandler env job)"
  shows "(Success r \<longleftrightarrow> Error r = None) \<and> inside (TempDir job) (Path r)"
proof -
  let ?ms = "Glob env (TempDir job) ''output'' (''.'' @ ToFormat job)"
  have out: "inside (TempDir job) (Join (TempDir job) ''output'')"
    using assms(1) by (intro inside_Join valid_name_literals)
  have outtxt: "inside (TempDir job) (Join (TempDir job) ''output'' @ ''.txt'')"
    using assms(1) inside_Join [of "TempDir job" "''output.txt''"]
    by (simp add: Join_def valid_name_literals)
  have first: "0 < length ?ms \<Longrightarrow> inside (TempDir job) (?ms ! 0)"
    using Glob_first_inside [OF assms(1,2)] by simp
  show ?thesis
    using assms(3) out outtxt first
    by (auto simp: PopplerHandler_def Let_def split: if_splits)
qed

lemma fixed_output_fields:
  assumes "TempDir job \<noteq> []"
  shows "r \<in> set (ImageMagickHandler env job) \<Longrightarrow>
           (Success r \<longleftrightarrow> Error r = None) \<and> inside (TempDir job) (Path r)"
    and "r \<in> set (PandocHandler env job) \<Longrightarrow>
           (Success r \<longleftrightarrow> Error r = None) \<and> inside (TempDir job) (Path r)"
    and "r \<in> set (GhostscriptHandler env job) \<Longrightarrow>
           (Success r \<longleftrightarrow> Error r = None) \<and> inside (TempDir job) (Path r)"
  using assms inside_Join [of "TempDir job" "''output.pdf''"]
  by (auto simp: ImageMagickHandler_def PandocHandler_def GhostscriptHandler_def Let_def
        valid_name_literals)

text \<open>
  C2: every one of the five pool handlers (LibreOffice, Poppler, ImageMagick, Pandoc,
  Ghostscript) sends exactly one result on the channel of the Job it handles, whatever the
  tools and the file system answer: never none and never more than one.
\<close>

theorem handler_sends_one_result: "length (handler p env job) = 1"
  by (cases p)
     (simp_all add: LibreOfficeHandler_def PopplerHandler_def ImageMagickHandler_def
        PandocHandler_def GhostscriptHandler_def Let_def split: prod.splits)

text \<open>
  C4 does not hold for the Poppler handler. The LibreOffice handler turns a run of the tool
  that left no matching file into a failure (\<open>LibreOfficeHandler_not_found\<close>), and adopts
  the first match otherwise (\<open>LibreOfficeHandler_found\<close>). The Poppler handler searches
  too and adopts the first match (\<open>PopplerHandler_found\<close>), but has no branch for an empty
  search: for the target \<open>jpeg\<close> the tool is run with
  \<open>-jpeg\<close> and names its file \<open>output-1.jpg\<close>, the search for \<open>output*.jpeg\<close> finds
  nothing, and the handler sends a success whose path is the prefix \<open>output\<close>, a file
  that was never written.
\<close>

theorem PopplerHandler_success_without_output:
  "PDFToImage env_tools_ok (InputPath job_pdf_jpeg) (Join (TempDir job_pdf_jpeg) ''output'')
       (ToFormat job_pdf_jpeg) = None
   \<and> Glob env_tools_ok (TempDir job_pdf_jpeg) ''output'' (''.'' @ ToFormat job_pdf_jpeg) = []
   \<and> handler PopplerPool env_tools_ok job_pdf_jpeg
       = [\<lparr>Success = True, Error = None, Path = ''tmp/j1/output''\<rparr>]"
  by code_simp

text \<open>
  C5, as the claim states it, fails: a handler fills the path of every result, also of a
  failure. Here the LibreOffice tool exits with an error and the result sent has
  \<open>Success = False\<close> and the path \<open>tmp/j2/output.pdf\<close>.
\<close>

theorem LibreOfficeHandler_failure_has_path:
  "handler LibreOfficePool env_tools_fail job_docx_pdf
     = [\<lparr>Success = False, Error = Some ''LibreOffice failed: exit status 1'',
         Path = ''tmp/j2/output.pdf''\<rparr>]"
  by code_simp

text \<open>
  C5, amended: in every result sent by a pool handler, success is true exactly when the
  error is absent; the path is filled in every result, of a success and of a failure alike,
  and it lies inside the working directory of the Job. (For a Job with a working directory
  and a target format without a path separator, as the request handlers build them, and a
  working directory whose entries have proper names.)
\<close>

theorem handler_result_fields:
  assumes "TempDir job \<noteq> []" and "CHR ''/'' \<notin> set (ToFormat job)"
    and "\<forall>n \<in> set (entries env (TempDir job)). valid_name n"
  shows "\<forall>r \<in> set (handler p env job).
           (Success r \<longleftrightarrow> Error r = None) \<and> Path r \<noteq> [] \<and> inside (TempDir job) (Path r)"
proof
  fix r assume r: "r \<in> set (handler p env job)"
  have "(Success r \<longleftrightarrow> Error r = None) \<and> inside (TempDir job) (Path r)"
  proof (cases p)
    case LibreOfficePool
    with r show ?thesis using LibreOfficeHandler_fields [OF assms] by simp
  next
    case PopplerPool
    with r show ?thesis using PopplerHandler_fields [OF assms(1,3)] by simp
  next
    case ImageMagickPool
    with r show ?thesis using fixed_output_fields(1) [OF assms(1)] by simp
  next
    case PandocPool
    with r show ?thesis using fixed_output_fields(2) [OF assms(1)] by simp
  next
    case GhostscriptPool
    with r show ?thesis using fixed_output_fields(3) [OF assms(1)] by simp
  qed
  then show "(Success r \<longleftrightarrow> Error r = None) \<and> Path r \<noteq> [] \<and> inside (TempDir job) (Path r)"
    using inside_nonempty by blast
qed

theorem handler_result_fields_witness:
  "TempDir job_docx_pdf \<noteq> [] \<and> CHR ''/'' \<notin> set (ToFormat job_docx_pdf)
   \<and> list_all valid_name (entries env_tools_fail (TempDir job_docx_pdf))
   \<and> handler LibreOfficePool env_tools_fail job_docx_pdf \<noteq> []
   \<and> list_all (\<lambda>r. (Success r \<longleftrightarrow> Error r = None) \<and> Path r \<noteq> []
                     \<and> inside (TempDir job_docx_pdf) (Path r))
        (handler LibreOfficePool env_tools_fail job_docx_pdf)"
proof -
  have h1: "TempDir job_docx_pdf \<noteq> []" by code_simp
  have h2: "CHR ''/'' \<notin> set (ToFormat job_docx_pdf)" by code_simp
  have h3': "list_all valid_name (entries env_tools_fail (TempDir job_docx_pdf))" by code_simp
  then have h3: "\<forall>n \<in> set (entries env_tools_fail (TempDir job_docx_pdf)). valid_name n"
    by (simp add: list_all_iff)
  have h4: "handler LibreOfficePool env_tools_fail job_docx_pdf \<noteq> []" by code_simp
  show ?thesis
    using h1 h2 h3' h4 handler_result_fields [OF h1 h2 h3, of LibreOfficePool]
    by (simp add: list_all_iff)
qed

section \<open>Properties of the /convert handler\<close>

lemma handler_singleton: "\<exists>r. handler p env job = [r]"
  by (cases p)
     (simp_all add: LibreOfficeHandler_def PopplerHandler_def ImageMagickHandler_def
        PandocHandler_def GhostscriptHandler_def Let_def split: prod.splits)

lemma RemoveAll_effect:
  "p \<notin> set (dirs (RemoveAll p w))" "removed (RemoveAll p w) = removed w @ [p]"
  "queued (RemoveAll p w) = queued w"
  by (simp_all add: RemoveAll_def)

lemma Join_tmp_nonempty: "Join ''tmp'' x \<noteq> []"
  by (simp add: Join_def)

lemma Cleanup_effect:
  assumes "TempDir j = d" and "d \<noteq> []"
  shows "d \<notin> set (dirs (Cleanup j w))" "removed (Cleanup j w) = removed w @ [d]"
    "queued (Cleanup j w) = queued w"
  using assms by (auto simp: Cleanup_def RemoveAll_effect)

lemma MkdirAll_effect: "removed (MkdirAll p w) = removed w" "queued (MkdirAll p w) = queued w"
  by (simp_all add: MkdirAll_def)

lemma handler_not_Nil: "handler p env job \<noteq> []"
  using handler_singleton [of p env job] by auto

lemma enqueue_effect: "dirs (enqueue p j w) = dirs w" "removed (enqueue p j w) = removed w"
  by (simp_all add: enqueue_def)

lemma HandleConvert_returns: "\<exists>resp w'. HandleConvert env r w = Some (resp, w')"
  by (auto simp: HandleConvert_def Let_def handler_not_Nil split: option.splits list.splits)

lemma HandleConvert_staged_cleanup:
  assumes "staged env r"
  shows "\<exists>resp w'. HandleConvert env r w = Some (resp, w')
           \<and> Join ''tmp'' (uuid env) \<notin> set (dirs w')
           \<and> removed w' = removed w @ [Join ''tmp'' (uuid env)]"
  using assms
  by (auto simp: HandleConvert_def staged_def Let_def handler_not_Nil Cleanup_effect
        enqueue_effect MkdirAll_effect Join_tmp_nonempty
        split: option.splits list.splits)

lemma HandleConvert_unrouted:
  assumes "selectPool (FormValue r ''from'') (FormValue r ''to'') = None"
  shows "\<exists>resp w'. HandleConvert env r w = Some (resp, w') \<and> queued w' = queued w"
  using assms
  by (auto simp: HandleConvert_def Let_def Cleanup_effect MkdirAll_effect Join_tmp_nonempty
        split: option.splits)

lemma HandleConvert_unrouted_staged:
  assumes "selectPool (FormValue r ''from'') (FormValue r ''to'') = None" and "staged env r"
  shows "HandleConvert env r w =
           Some (HttpError 400 ''Unsupported conversion'',
                 Cleanup \<lparr>ID = uuid env, InputPath = Join (Join ''tmp'' (uuid env)) (the (upload r)),
                           OutputPath = [], FromFormat = FormValue r ''from'',
                           ToFormat = FormValue r ''to'', TempDir = Join ''tmp'' (uuid env)\<rparr>
                   (MkdirAll (Join ''tmp'' (uuid env)) w))"
  using assms
  by (auto simp: HandleConvert_def staged_def Let_def split: option.splits)

text \<open>
  C1 does not hold on the exit paths of a staging failure. Once the input is staged, every
  exit path (unsupported pair, engine failure, failure to open the result, success) removes
  the working directory exactly once (\<open>HandleConvert_staged_cleanup\<close>). But when
  \<open>os.Create\<close> of the input file fails, or the copy of the upload into it, the handler
  returns its error response without a call of \<open>Cleanup\<close>: the working directory that
  \<open>os.MkdirAll\<close> has just created stays, and nothing is removed.
\<close>

theorem HandleConvert_staging_failure_keeps_dir:
  "HandleConvert env_create_fails (convert_request ''a.docx'' ''docx'' ''pdf'') world0
     = Some (HttpError 500 ''Internal server error'',
             \<lparr>dirs = [''tmp/r1'', ''tmp''], removed = [], queued = [], calls = []\<rparr>)"
  by code_simp

text \<open>
  C6: a /convert request whose pair of formats the router does not support never puts a Job
  into the queue of a pool; and when it has reached the routing step, with its working
  directory created and its input staged, the handler removes that directory (once) and
  answers with the client error 400.
\<close>

theorem unsupported_pair_is_client_error:
  assumes "selectPool (FormValue r ''from'') (FormValue r ''to'') = None"
  shows "\<exists>resp w'. HandleConvert env r w = Some (resp, w') \<and> queued w' = queued w
           \<and> (staged env r \<longrightarrow>
                resp = HttpError 400 ''Unsupported conversion''
                \<and> Join ''tmp'' (uuid env) \<notin> set (dirs w')
                \<and> removed w' = removed w @ [Join ''tmp'' (uuid env)])"
proof (cases "staged env r")
  case True
  show ?thesis
    using True HandleConvert_unrouted_staged [OF assms True, of w]
    by (simp add: Cleanup_effect MkdirAll_effect Join_tmp_nonempty)
next
  case False
  then show ?thesis using HandleConvert_unrouted [OF assms] by simp
qed

theorem unsupported_pair_is_client_error_witness:
  "selectPool (FormValue (convert_request ''a.docx'' ''docx'' ''png'') ''from'')
              (FormValue (convert_request ''a.docx'' ''docx'' ''png'') ''to'') = None
   \<and> staged env_tools_ok (convert_request ''a.docx'' ''docx'' ''png'')
   \<and> HandleConvert env_tools_ok (convert_request ''a.docx'' ''docx'' ''png'') world0
       = Some (HttpError 400 ''Unsupported conversion'',
               \<lparr>dirs = [''tmp''], removed = [''tmp/j1''], queued = [], calls = []\<rparr>)"
proof -
  let ?r = "convert_request ''a.docx'' ''docx'' ''png''"
  have h: "selectPool (FormValue ?r ''from'') (FormValue ?r ''to'') = None" by code_simp
  have s: "staged env_tools_ok ?r" by code_simp
  have e: "HandleConvert env_tools_ok ?r world0
       = Some (HttpError 400 ''Unsupported conversion'',
               \<lparr>dirs = [''tmp''], removed = [''tmp/j1''], queued = [], calls = []\<rparr>)" by code_simp
  show ?thesis
    using h s e unsupported_pair_is_client_error [OF h, of env_tools_ok world0] by simp
qed

section \<open>Properties of the /rotate and /merge handlers\<close>

lemma FormValue_missing: "form r key = None \<Longrightarrow> FormValue r key = []"
  by (simp add: FormValue_def)

lemma Sscanf_d_empty: "Sscanf_d [] = None"
  by (simp add: Sscanf_d_def SkipSpace.simps)

lemma space_width_plain:
  assumes "byte c < 128" and "\<not> (9 \<le> byte c \<and> byte c \<le> 13)" and "byte c \<noteq> 32"
  shows "space_width (c # cs) = 0"
  using assms by (simp add: space_width_def)

lemma SkipSpace_plain:
  assumes "byte c < 128" and "\<not> (9 \<le> byte c \<and> byte c \<le> 13)" and "byte c \<noteq> 32"
  shows "SkipSpace (c # cs) = Some (c # cs)"
  using assms space_width_plain [OF assms, of cs] by (subst SkipSpace.simps) auto

lemma byte_sign: "byte CHR ''-'' = 45" "byte CHR ''+'' = 43"
  by (simp_all add: byte_def)

lemma takeWhile_digits: "list_all isDigit ds \<Longrightarrow> takeWhile isDigit ds = ds"
  by (simp add: list_all_iff)

lemma not_digit_sign: "\<not> isDigit CHR ''-''" "\<not> isDigit CHR ''+''"
  by (simp_all add: isDigit_def byte_def)

lemma Sscanf_d_integer:
  assumes "is_integer s"
  shows "Sscanf_d s =
           (if - (2 ^ 63) \<le> integer_value s \<and> integer_value s < 2 ^ 63
            then Some (integer_value s) else None)"
proof (cases s)
  case Nil
  with assms show ?thesis by (simp add: is_integer_def)
next
  case (Cons c cs)
  show ?thesis
  proof (cases "c = CHR ''-'' \<or> c = CHR ''+''")
    case True
    with assms Cons have ds: "cs \<noteq> []" "list_all isDigit cs"
      by (auto simp: is_integer_def)
    from True have "SkipSpace (c # cs) = Some (c # cs)"
      by (auto intro!: SkipSpace_plain simp: byte_sign)
    with True ds Cons show ?thesis
      by (auto simp: Sscanf_d_def integer_value_def takeWhile_digits Let_def)
  next
    case False
    with assms Cons have ds: "list_all isDigit (c # cs)"
      by (auto simp: is_integer_def)
    then have "isDigit c" by simp
    then have "SkipSpace (c # cs) = Some (c # cs)"
      by (intro SkipSpace_plain) (auto simp: isDigit_def)
    moreover have tw: "takeWhile isDigit (c # cs) = c # cs"
      by (rule takeWhile_digits [OF ds])
    ultimately show ?thesis
      using False Cons
      by (simp add: Sscanf_d_def integer_value_def Let_def tw del: takeWhile.simps)
  qed
qed

lemma serveAndCleanup_effect:
  "calls (snd (serveAndCleanup env path d w)) = calls w"
  "queued (snd (serveAndCleanup env path d w)) = queued w"
  "\<not> client_error (fst (serveAndCleanup env path d w))"
  by (simp_all add: serveAndCleanup_def RemoveAll_def client_error_def)

lemma not_client_error_500: "\<not> client_error (HttpError 500 msg)"
  by (simp add: client_error_def)

lemma mkdir_unchecked_effect:
  "calls (mkdir_unchecked env d w) = calls w" "queued (mkdir_unchecked env d w) = queued w"
  by (simp_all add: mkdir_unchecked_def MkdirAll_def)

lemma HandleRotate_angle:
  assumes "Method r = ''POST''" and "form_ok r" and "upload r = Some filename"
  shows "calls (snd (HandleRotate env r w)) =
           calls w @ [CallRotatePDF (Join (Join ''tmp'' (uuid env)) filename)
                        (Join (Join ''tmp'' (uuid env)) ''rotated.pdf'')
                        (case Sscanf_d (FormValue r ''angle'') of
                           None \<Rightarrow> 90 | Some v \<Rightarrow> if v = 0 then 90 else v)]"
    and "\<not> client_error (fst (HandleRotate env r w))"
  using assms
  by (auto simp: HandleRotate_def Let_def called_def RemoveAll_def serveAndCleanup_effect
        mkdir_unchecked_effect not_client_error_500 split: option.splits)

lemma stage_files_loop:
  "stage_files tempDir i names (acc, b) =
     (acc @ map (\<lambda>(k, name). Join tempDir (''input_'' @ itoa (int k) @ ToLower (Ext name)))
              (enumerate i names),
      b \<or> list_ex (\<lambda>n. image_ext (ToLower (Ext n))) names)"
  by (induction names arbitrary: i acc b) (auto simp: Let_def)

lemma stage_files_all:
  "stage_files tempDir 0 names ([], False) =
     (staged_paths tempDir names, list_ex (\<lambda>n. image_ext (ToLower (Ext n))) names)"
  by (simp add: stage_files_loop staged_paths_def)

lemma length_staged_paths: "length (staged_paths tempDir names) = length names"
  by (simp add: staged_paths_def)

text \<open>
  C8, as the claim states it, fails: the value \<open>12abc\<close> is not an integer, and the rotation
  is called with the angle 12, not with 90. The scan reads the digits at the start of the
  value and does not look at what follows them.
\<close>

theorem rotate_leading_integer:
  "\<not> is_integer ''12abc''
   \<and> HandleRotate env_all_ok (rotate_request [''angle'' \<mapsto> ''12abc'']) world0
       = (Stream ''tmp/r2/rotated.pdf'',
          \<lparr>dirs = [''tmp''], removed = [''tmp/r2''], queued = [],
            calls = [CallRotatePDF ''tmp/r2/in.pdf'' ''tmp/r2/rotated.pdf'' 12]\<rparr>)"
  by code_simp

text \<open>
  C8, amended: a /rotate request (a POST with a well-formed form and a file) whose \<open>angle\<close>
  value is missing, or does not start, after white space, with an integer that the scan
  accepts (decimal digits after an optional sign, within 64 bits), or starts with the
  integer 0, is not rejected as a client error: the rotation is called with the angle 90.
  A value that starts with another integer rotates by that integer, whatever follows it
  (\<open>HandleRotate_angle\<close>); a value that is an integer as a whole is scanned as that
  integer (\<open>Sscanf_d_integer\<close>).
\<close>

theorem rotate_defaults_to_90:
  assumes "Method r = ''POST''" and "form_ok r" and "upload r = Some filename"
    and "form r ''angle'' = None \<or> Sscanf_d (FormValue r ''angle'') = None
         \<or> Sscanf_d (FormValue r ''angle'') = Some 0"
  shows "calls (snd (HandleRotate env r w)) =
           calls w @ [CallRotatePDF (Join (Join ''tmp'' (uuid env)) filename)
                        (Join (Join ''tmp'' (uuid env)) ''rotated.pdf'') 90]
         \<and> \<not> client_error (fst (HandleRotate env r w))"
proof -
  from assms(4) have "Sscanf_d (FormValue r ''angle'') = None
      \<or> Sscanf_d (FormValue r ''angle'') = Some 0"
    by (auto simp: FormValue_missing Sscanf_d_empty)
  then show ?thesis
    using HandleRotate_angle [OF assms(1-3), of env w] by auto
qed

theorem rotate_defaults_to_90_witness:
  "Method (rotate_request [''angle'' \<mapsto> ''abc'']) = ''POST''
   \<and> form_ok (rotate_request [''angle'' \<mapsto> ''abc''])
   \<and> upload (rotate_request [''angle'' \<mapsto> ''abc'']) = Some ''in.pdf''
   \<and> Sscanf_d (FormValue (rotate_request [''angle'' \<mapsto> ''abc'']) ''angle'') = None
   \<and> HandleRotate env_all_ok (rotate_request [''angle'' \<mapsto> ''abc'']) world0
       = (Stream ''tmp/r2/rotated.pdf'',
          \<lparr>dirs = [''tmp''], removed = [''tmp/r2''], queued = [],
            calls = [CallRotatePDF ''tmp/r2/in.pdf'' ''tmp/r2/rotated.pdf'' 90]\<rparr>)"
proof -
  let ?r = "rotate_request [''angle'' \<mapsto> ''abc'']"
  have a: "Method ?r = ''POST''" and b: "form_ok ?r" and c: "upload ?r = Some ''in.pdf''"
    by (simp_all add: rotate_request_def)
  have d: "Sscanf_d (FormValue ?r ''angle'') = None" by code_simp
  then have d': "form ?r ''angle'' = None \<or> Sscanf_d (FormValue ?r ''angle'') = None
         \<or> Sscanf_d (FormValue ?r ''angle'') = Some 0" by simp
  have e: "HandleRotate env_all_ok ?r world0
       = (Stream ''tmp/r2/rotated.pdf'',
          \<lparr>dirs = [''tmp''], removed = [''tmp/r2''], queued = [],
            calls = [CallRotatePDF ''tmp/r2/in.pdf'' ''tmp/r2/rotated.pdf'' 90]\<rparr>)"
    by code_simp
  show ?thesis
    using a b c d e rotate_defaults_to_90 [OF a b c d', of env_all_ok world0] by simp
qed

text \<open>
  C9, as the claim states it, fails: of the two files \<open>A.JPG\<close> and \<open>b.pdf\<close> none has one of
  the extensions \<open>.jpg\<close>, \<open>.jpeg\<close>, \<open>.png\<close>, and the handler passes both to the
  conversion of images, because it lowers the extension before it compares it.
\<close>

theorem merge_uppercase_extension_is_image:
  "\<not> image_ext (Ext ''A.JPG'') \<and> \<not> image_ext (Ext ''b.pdf'')
   \<and> HandleMerge env_all_ok (merge_request [''A.JPG'', ''b.pdf'']) world0
       = (Stream ''tmp/r2/merged.pdf'',
          \<lparr>dirs = [''tmp''], removed = [''tmp/r2''], queued = [],
            calls = [CallImageToPDFSync [''tmp/r2/input_0.jpg'', ''tmp/r2/input_1.pdf'']
                       ''tmp/r2/merged.pdf'']\<rparr>)"
  by code_simp

text \<open>
  C9, amended: for a /merge request with at least two files, if the name of any uploaded
  file has, once lowered, the extension \<open>.jpg\<close>, \<open>.jpeg\<close> or \<open>.png\<close>, then all inputs
  (the PDFs among them too) are passed to the synchronous conversion of images to PDF, and
  otherwise all inputs are passed to the synchronous merge of PDFs; every uploaded file is
  among the inputs, and no Job is put into the queue of a pool.
\<close>

theorem merge_dispatch:
  assumes "Method r = ''POST''" and "form_ok r" and "2 \<le> length (files r)"
  shows "calls (snd (HandleMerge env r w)) =
           calls w @
           [if list_ex (\<lambda>n. image_ext (ToLower (Ext n))) (files r)
            then CallImageToPDFSync (staged_paths (Join ''tmp'' (uuid env)) (files r))
                   (Join (Join ''tmp'' (uuid env)) ''merged.pdf'')
            else CallMergePDFsSync (staged_paths (Join ''tmp'' (uuid env)) (files r))
                   (Join (Join ''tmp'' (uuid env)) ''merged.pdf'')]
         \<and> length (staged_paths (Join ''tmp'' (uuid env)) (files r)) = length (files r)
         \<and> queued (snd (HandleMerge env r w)) = queued w"
  using assms
  by (auto simp: HandleMerge_def Let_def stage_files_all length_staged_paths called_def
        RemoveAll_def serveAndCleanup_effect mkdir_unchecked_effect split: option.splits)


theorem merge_dispatch_witness:
  "Method (merge_request [''a.pdf'', ''b.png'']) = ''POST''
   \<and> form_ok (merge_request [''a.pdf'', ''b.png''])
   \<and> 2 \<le> length (files (merge_request [''a.pdf'', ''b.png'']))
   \<and> HandleMerge env_all_ok (merge_request [''a.pdf'', ''b.png'']) world0
       = (Stream ''tmp/r2/merged.pdf'',
          \<lparr>dirs = [''tmp''], removed = [''tmp/r2''], queued = [],
            calls = [CallImageToPDFSync [''tmp/r2/input_0.pdf'', ''tmp/r2/input_1.png'']
                       ''tmp/r2/merged.pdf'']\<rparr>)"
proof -
  let ?r = "merge_request [''a.pdf'', ''b.png'']"
  have a: "Method ?r = ''POST''" and b: "form_ok ?r" and c: "2 \<le> length (files ?r)"
    by (simp_all add: merge_request_def)
  have e: "HandleMerge env_all_ok ?r world0
       = (Stream ''tmp/r2/merged.pdf'',
          \<lparr>dirs = [''tmp''], removed = [''tmp/r2''], queued = [],
            calls = [CallImageToPDFSync [''tmp/r2/input_0.pdf'', ''tmp/r2/input_1.png'']
                       ''tmp/r2/merged.pdf'']\<rparr>)"
    by code_simp
  show ?thesis
    using a b c e merge_dispatch [OF a b c, of env_all_ok world0] by simp
qed

section \<open>Properties of the worker pool\<close>

lemma step_invariant:
  assumes "step s s'"
    and "length (goroutines s) = launched s" and "int (launched s) \<le> max 0 (workers s)"
  shows "length (goroutines s') = launched s' \<and> int (launched s') \<le> max 0 (workers s')
         \<and> workers s' = workers s"
  using assms by (induction rule: step.induct) auto

lemma reachable_invariant:
  assumes "reachable n s"
  shows "length (goroutines s) = launched s \<and> int (launched s) \<le> max 0 n \<and> workers s = n"
  using assms
proof (induction rule: reachable.induct)
  case init
  show ?case by (simp add: NewWorkerPool_def)
next
  case (next_step s s')
  then show ?case using step_invariant [of s s'] by auto
qed

lemma running_le_goroutines: "running s \<le> length (goroutines s)"
  by (simp add: running_def)

lemma reachable_pool_busy: "reachable 2 pool_busy"
proof -
  let ?s0 = "NewWorkerPool 2"
  let ?s1 = "?s0\<lparr>launched := 1, goroutines := [Waiting]\<rparr>"
  let ?s2 = "?s0\<lparr>launched := 2, goroutines := [Waiting, Waiting]\<rparr>"
  let ?s3 = "?s2\<lparr>JobQueue := [job_pdf_jpeg]\<rparr>"
  let ?s4 = "?s2\<lparr>JobQueue := [], goroutines := [Handling job_pdf_jpeg, Waiting]\<rparr>"
  let ?s5 = "?s4\<lparr>JobQueue := [job_docx_pdf]\<rparr>"
  have r0: "reachable 2 ?s0" by (rule reachable.init)
  have "step ?s0 ?s1" using step.launch [of ?s0] by (simp add: NewWorkerPool_def)
  with r0 have r1: "reachable 2 ?s1" by (rule reachable.next_step)
  have "step ?s1 ?s2" using step.launch [of ?s1] by (simp add: NewWorkerPool_def numeral_2_eq_2)
  with r1 have r2: "reachable 2 ?s2" by (rule reachable.next_step)
  have "step ?s2 ?s3" using step.send [of ?s2 job_pdf_jpeg] by (simp add: NewWorkerPool_def)
  with r2 have r3: "reachable 2 ?s3" by (rule reachable.next_step)
  have "step ?s3 ?s4" using step.receive [of 0 ?s3 job_pdf_jpeg "[]"] by (simp add: NewWorkerPool_def)
  with r3 have r4: "reachable 2 ?s4" by (rule reachable.next_step)
  have "step ?s4 ?s5" using step.send [of ?s4 job_docx_pdf] by (simp add: NewWorkerPool_def)
  with r4 have r5: "reachable 2 ?s5" by (rule reachable.next_step)
  then show ?thesis by (simp add: pool_busy_def NewWorkerPool_def)
qed

text \<open>
  C7: in a pool constructed with \<open>n\<close> workers, at no reachable state do more than \<open>n\<close>
  invocations of the handler run, however many Jobs are in the queue: \<open>Start\<close> launches
  \<open>n\<close> goroutines and no more, and each of them runs one invocation at a time.
\<close>

theorem pool_concurrency_bound:
  assumes "0 \<le> n" and "reachable n s"
  shows "int (running s) \<le> n"
proof -
  have "running s \<le> launched s"
    using running_le_goroutines [of s] reachable_invariant [OF assms(2)] by simp
  moreover have "int (launched s) \<le> n"
    using reachable_invariant [OF assms(2)] assms(1) by simp
  ultimately show ?thesis by simp
qed

theorem pool_concurrency_bound_witness:
  "(0::int) \<le> 2 \<and> reachable 2 pool_busy \<and> running pool_busy = 1 \<and> int (running pool_busy) \<le> 2"
proof -
  have h: "(0::int) \<le> 2" by simp
  have e: "running pool_busy = 1" by code_simp
  show ?thesis
    using h e reachable_pool_busy pool_concurrency_bound [OF h reachable_pool_busy] by simp
qed

end
